theory Spec2Isabelle
  imports Complex_Main "HOL-Library.Char_ord" "HOL-Library.List_Lexorder" "HOL-Library.Multiset"
begin

section \<open>Values, time and results\<close>

text \<open>
  A Go \<^verbatim>\<open>interface{}\<close> value as the pipeline meets it: the payload decoder hands over
  booleans, strings and float64 numbers, and anything else (JSON arrays, null).  The
  expression environment also holds durations and the built-in functions, which are
  represented by their names.  A float64 is modelled by a real number: rounding, infinities
  and NaN are outside the model.
\<close>

datatype val =
    VNil
  | VBool bool
  | VStr string
  | VFloat real
  | VDur int
  | VList "val list"
  | VFunc string

text \<open>
  A \<^verbatim>\<open>time.Time\<close> is the number of nanoseconds since the zero time, so \<^verbatim>\<open>time.Time{}\<close>
  is 0 and \<^verbatim>\<open>IsZero\<close> is equality with 0.  A \<^verbatim>\<open>time.Duration\<close> is a signed 64-bit count
  of nanoseconds; \<^verbatim>\<open>Time.Sub\<close> saturates at its bounds.
\<close>

definition Minute :: int where
  "Minute = 60 * 1000000000"

definition maxDuration :: int where
  "maxDuration = 2 ^ 63 - 1"

definition minDuration :: int where
  "minDuration = - (2 ^ 63)"

definition Sub :: "int \<Rightarrow> int \<Rightarrow> int" where
  "Sub t u =
     (let d = t - u in
      if d > maxDuration then maxDuration
      else if d < minDuration then minDuration
      else d)"

datatype error =
    UnexpectedString string
  | ParseFloatFailed val
  | UnexpectedType val
  | ReadFailed string
  | UnmarshalFailed string
  | MarshalFailed
  | OpenFileFailed string
  | WriteFailed string
  | CompileFailed string
  | EvalFailed string
  | LabelCompileFailed string
  | LabelEvalFailed string

text \<open>
  A Go function returning \<^verbatim>\<open>(T, error)\<close> returns \<open>Ok x\<close> when the error is nil and
  \<open>Err e\<close> otherwise: every caller in the package tests the error first and drops the value
  that came with it.  \<open>Panic\<close> is a run-time panic, which no \<^verbatim>\<open>err != nil\<close> test sees.
\<close>

datatype 'a result = Ok 'a | Err error | Panic

section \<open>Configuration data (pkg/config/config.go)\<close>

text \<open>
  A compiled \<^verbatim>\<open>*regexp.Regexp\<close> is represented by the names of its capture groups, the only
  thing configuration loading asks of it.
\<close>

datatype regex = Regex (SubexpNames: "string list")

record Regexp =
  regexp_r :: "regex option"
  pattern :: string

record StringValueMappingConfig =
  SVM_ErrorValue :: "real option"
  SVM_Map :: "string \<Rightarrow> real option"

text \<open>
  The two label maps are optional: \<open>None\<close> is Go's nil map, which reflection counts as the
  zero value, while an empty map that exists is not zero.  \<open>DynamicLabels\<close> is an association
  list with distinct keys; its order stands for the order in which the runtime happens to
  iterate the map.
\<close>

record MetricConfig =
  PrometheusName :: string
  MQTTName :: string
  PayloadField :: string
  SensorNameFilter :: Regexp
  TopicPathFilter :: "Regexp option"
  Help :: string
  ValueType :: string
  OmitTimestamp :: bool
  RawExpression :: string
  Expression :: string
  ForceMonotonicy :: bool
  ConstantLabels :: "(string \<Rightarrow> string option) option"
  DynamicLabels :: "(string \<times> string) list option"
  StringValueMapping :: "StringValueMappingConfig option"
  MQTTValueScale :: real
  ErrorValue :: "real option"

definition dynamicLabelsList :: "MetricConfig \<Rightarrow> (string \<times> string) list" where
  "dynamicLabelsList mc = (case DynamicLabels mc of None \<Rightarrow> [] | Some kvs \<Rightarrow> kvs)"

text \<open>\<^verbatim>\<open>sort.Strings\<close> sorts in increasing byte-wise lexicographic order.\<close>

definition DynamicLabelsKeys :: "MetricConfig \<Rightarrow> string list" where
  "DynamicLabelsKeys mc = sort (map fst (dynamicLabelsList mc))"

record Desc =
  fqName :: string
  desc_help :: string
  variableLabels :: "string list"
  constLabels :: "(string \<Rightarrow> string option) option"

definition PrometheusDescription :: "MetricConfig \<Rightarrow> Desc" where
  "PrometheusDescription mc =
     \<lparr>fqName = PrometheusName mc, desc_help = Help mc,
      variableLabels = [''sensor'', ''topic''] @ DynamicLabelsKeys mc,
      constLabels = ConstantLabels mc\<rparr>"

datatype value_type = GaugeValue | CounterValue | UntypedValue

definition PrometheusValueType :: "MetricConfig \<Rightarrow> value_type" where
  "PrometheusValueType mc =
     (if ValueType mc = ''gauge'' then GaugeValue
      else if ValueType mc = ''counter'' then CounterValue
      else UntypedValue)"

section \<open>Parser state (package metrics)\<close>

record dynamicState =
  Offset :: real
  LastRawValue :: real
  LastExprValue :: real
  LastExprRawValue :: val
  LastExprResult :: real
  LastExprResultString :: string
  LastExprTimestamp :: int

type_synonym env = "string \<Rightarrow> val option"

text \<open>
  A compiled \<^verbatim>\<open>*vm.Program\<close> is represented by what \<^verbatim>\<open>expr.Run\<close> does with it: a function
  from the environment to the result, \<open>None\<close> when the run fails.
\<close>

type_synonym program = "env \<Rightarrow> val option"

record metricState =
  dynamic :: dynamicState
  lastWritten :: int
  program :: "program option"
  env :: env

text \<open>
  The libraries the package calls: \<^verbatim>\<open>expr.Compile\<close> (the flag says whether
  \<^verbatim>\<open>expr.AsFloat64()\<close> is passed; \<open>None\<close> is a compile error), \<^verbatim>\<open>strconv.ParseFloat\<close>
  and \<^verbatim>\<open>fmt.Sprint\<close>.
\<close>

record lib =
  Compile :: "string \<Rightarrow> env \<Rightarrow> bool \<Rightarrow> program option"
  ParseFloat :: "string \<Rightarrow> real option"
  Sprint :: "val \<Rightarrow> string"

text \<open>What a state file holds, as \<^verbatim>\<open>readMetricState\<close> finds it.\<close>

datatype state_file =
    NotExist
  | OpenFails
  | ReadFails
  | Corrupt
  | Content dynamicState

text \<open>
  How writing a state file ends: the YAML encoder fails, the file cannot be opened for
  writing, the write fails after the file was truncated (leaving the given content), or
  the write succeeds.
\<close>

datatype write_outcome =
    MarshalFails
  | OpenFileFails
  | WriteFails state_file
  | WriteOk

text \<open>
  The \<^verbatim>\<open>Parser\<close> (its state directory and its per-metric states) together with the part
  of the machine it touches: the state files, what a write to each would do, and the clock.
  \<^verbatim>\<open>now()\<close> returns \<open>now w\<close> throughout one call of the pipeline.
\<close>

record world =
  stateDir :: string
  states :: "string \<Rightarrow> metricState option"
  files :: "string \<Rightarrow> state_file"
  writeResult :: "string \<Rightarrow> write_outcome"
  now :: int

record Metric =
  Description :: Desc
  Value :: real
  Metric_ValueType :: value_type
  IngestTime :: int
  Labels :: "string \<Rightarrow> string option"
  LabelsKeys :: "string list"

definition env_raw_value :: string where "env_raw_value = ''raw_value''"
definition env_value :: string where "env_value = ''value''"
definition env_last_value :: string where "env_last_value = ''last_value''"
definition env_last_raw_value :: string where "env_last_raw_value = ''last_raw_value''"
definition env_last_result :: string where "env_last_result = ''last_result''"
definition env_elapsed :: string where "env_elapsed = ''elapsed''"

definition defaultExprEnv :: env where
  "defaultExprEnv =
     [env_raw_value \<mapsto> VNil,
      env_value \<mapsto> VFloat 0,
      env_last_value \<mapsto> VFloat 0,
      env_last_result \<mapsto> VFloat 0,
      env_elapsed \<mapsto> VDur 0,
      ''now'' \<mapsto> VFunc ''now'',
      ''int'' \<mapsto> VFunc ''int'',
      ''float'' \<mapsto> VFunc ''float'',
      ''round'' \<mapsto> VFunc ''round'',
      ''ceil'' \<mapsto> VFunc ''ceil'',
      ''floor'' \<mapsto> VFunc ''floor'',
      ''abs'' \<mapsto> VFunc ''abs'',
      ''min'' \<mapsto> VFunc ''min'',
      ''max'' \<mapsto> VFunc ''max'']"

definition stateFileName :: "world \<Rightarrow> string \<Rightarrow> string" where
  "stateFileName w metricID = stateDir w @ ''/'' @ metricID @ ''.yaml''"

definition zeroDynamic :: dynamicState where
  "zeroDynamic =
     \<lparr>Offset = 0, LastRawValue = 0, LastExprValue = 0, LastExprRawValue = VNil,
      LastExprResult = 0, LastExprResultString = [], LastExprTimestamp = 0\<rparr>"

definition zeroState :: metricState where
  "zeroState = \<lparr>dynamic = zeroDynamic, lastWritten = 0, program = None, env = Map.empty\<rparr>"

text \<open>
  \<^verbatim>\<open>readMetricState\<close>.  When \<^verbatim>\<open>os.Open\<close> fails for another reason than a missing file, the
  error message is built from \<^verbatim>\<open>f.Name()\<close> of the nil file: a nil dereference.
\<close>

definition readMetricState :: "string \<Rightarrow> world \<Rightarrow> metricState result" where
  "readMetricState metricID w =
     (case files w (stateFileName w metricID) of
        NotExist \<Rightarrow> Ok zeroState
      | OpenFails \<Rightarrow> Panic
      | ReadFails \<Rightarrow> Err (ReadFailed (stateFileName w metricID))
      | Corrupt \<Rightarrow> Err (UnmarshalFailed (stateFileName w metricID))
      | Content d \<Rightarrow> Ok (zeroState\<lparr>dynamic := d, lastWritten := now w\<rparr>))"

definition writeMetricState :: "string \<Rightarrow> metricState \<Rightarrow> world \<Rightarrow> error option \<times> world" where
  "writeMetricState metricID state w =
     (let name = stateFileName w metricID in
      case writeResult w name of
        MarshalFails \<Rightarrow> (Some MarshalFailed, w)
      | OpenFileFails \<Rightarrow> (Some (OpenFileFailed name), w)
      | WriteFails left \<Rightarrow> (Some (WriteFailed name), w\<lparr>files := (files w)(name := left)\<rparr>)
      | WriteOk \<Rightarrow> (None, w\<lparr>files := (files w)(name := Content (dynamic state))\<rparr>))"

text \<open>
  The states are held by pointer: what a caller changes in the state it was given is
  changed in \<^verbatim>\<open>p.states\<close>.  \<open>putState\<close> writes such a change back.
\<close>

definition putState :: "string \<Rightarrow> metricState \<Rightarrow> world \<Rightarrow> world" where
  "putState metricID state w = w\<lparr>states := (states w)(metricID \<mapsto> state)\<rparr>"

definition getMetricState :: "string \<Rightarrow> world \<Rightarrow> metricState result \<times> world" where
  "getMetricState metricID w =
     (case (case states w metricID of
              Some state \<Rightarrow> (Ok state, w)
            | None \<Rightarrow>
                (case readMetricState metricID w of
                   Ok state \<Rightarrow> (Ok state, putState metricID state w)
                 | Err e \<Rightarrow> (Err e, w)
                 | Panic \<Rightarrow> (Panic, w))) of
        (Ok state, w1) \<Rightarrow>
          if Sub (now w1) (lastWritten state) \<ge> Minute then
            (case writeMetricState metricID state w1 of
               (None, w2) \<Rightarrow>
                 (Ok (state\<lparr>lastWritten := now w2\<rparr>),
                  putState metricID (state\<lparr>lastWritten := now w2\<rparr>) w2)
             | (Some e, w2) \<Rightarrow> (Err e, w2))
          else (Ok state, w1)
      | (Err e, w1) \<Rightarrow> (Err e, w1)
      | (Panic, w1) \<Rightarrow> (Panic, w1))"

definition enforceMonotonicy :: "string \<Rightarrow> real \<Rightarrow> world \<Rightarrow> real result \<times> world" where
  "enforceMonotonicy metricID v w =
     (case getMetricState metricID w of
        (Ok ms, w1) \<Rightarrow>
          (let ms1 = (if v < LastRawValue (dynamic ms)
                      then ms\<lparr>dynamic := (dynamic ms)\<lparr>Offset :=
                                 Offset (dynamic ms) + LastRawValue (dynamic ms)\<rparr>,
                              lastWritten := 0\<rparr>
                      else ms);
               ms2 = ms1\<lparr>dynamic := (dynamic ms1)\<lparr>LastRawValue := v\<rparr>\<rparr>
           in (Ok (v + Offset (dynamic ms2)), putState metricID ms2 w1))
      | (Err e, w1) \<Rightarrow> (Err e, w1)
      | (Panic, w1) \<Rightarrow> (Panic, w1))"

text \<open>
  \<^verbatim>\<open>evalExpressionValue\<close>.  The environment is filled in the branch that compiles the
  program, as in the source.  After that branch the program is still missing exactly when
  compilation failed, which is where the source returns the compile error.
\<close>

definition evalExpressionValue ::
  "lib \<Rightarrow> string \<Rightarrow> string \<Rightarrow> val \<Rightarrow> real \<Rightarrow> world \<Rightarrow> real result \<times> world" where
  "evalExpressionValue L metricID code raw_value v w =
     (case getMetricState metricID w of
        (Ok ms, w1) \<Rightarrow>
          (let ms1 =
             (case program ms of
                Some p \<Rightarrow> ms
              | None \<Rightarrow>
                  (let e = defaultExprEnv
                         (env_raw_value \<mapsto> raw_value,
                          env_value \<mapsto> VFloat v,
                          env_last_value \<mapsto> VFloat (LastExprValue (dynamic ms)),
                          env_last_raw_value \<mapsto> LastExprRawValue (dynamic ms),
                          env_last_result \<mapsto> VFloat (LastExprResult (dynamic ms)),
                          env_elapsed \<mapsto>
                            VDur (if LastExprTimestamp (dynamic ms) = 0 then 0
                                  else Sub (now w1) (LastExprTimestamp (dynamic ms))))
                   in case Compile L code e True of
                        None \<Rightarrow> ms\<lparr>env := e\<rparr>
                      | Some p \<Rightarrow> ms\<lparr>env := e, program := Some p, lastWritten := 0\<rparr>))
           in case program ms1 of
                None \<Rightarrow> (Err (CompileFailed code), putState metricID ms1 w1)
              | Some p \<Rightarrow>
                  (case p (env ms1) of
                     None \<Rightarrow> (Err (EvalFailed code), putState metricID ms1 w1)
                   | Some (VFloat ret) \<Rightarrow>
                       (Ok ret,
                        putState metricID
                          (ms1\<lparr>dynamic := (dynamic ms1)
                                 \<lparr>LastExprResult := ret,
                                  LastExprRawValue := raw_value,
                                  LastExprValue := v,
                                  LastExprTimestamp := now w1\<rparr>\<rparr>) w1)
                   | Some _ \<Rightarrow> (Panic, putState metricID ms1 w1)))
      | (Err e, w1) \<Rightarrow> (Err e, w1)
      | (Panic, w1) \<Rightarrow> (Panic, w1))"

text \<open>
  \<^verbatim>\<open>evalExpressionLabel\<close>: the state is kept under the label's own key, the program is
  compiled against the default environment, and the environment is filled before every run.
\<close>

definition evalExpressionLabel ::
  "lib \<Rightarrow> string \<Rightarrow> string \<Rightarrow> string \<Rightarrow> val \<Rightarrow> real \<Rightarrow> world \<Rightarrow> string result \<times> world" where
  "evalExpressionLabel L metricID label code rawValue v w =
     (let key = label @ ''@'' @ metricID in
      case getMetricState key w of
        (Ok ms, w1) \<Rightarrow>
          (let ms1 =
             (case program ms of
                Some p \<Rightarrow> ms
              | None \<Rightarrow>
                  (case Compile L code defaultExprEnv False of
                     None \<Rightarrow> ms\<lparr>env := defaultExprEnv\<rparr>
                   | Some p \<Rightarrow>
                       ms\<lparr>env := defaultExprEnv, program := Some p, lastWritten := 0\<rparr>))
           in case program ms1 of
                None \<Rightarrow> (Err (LabelCompileFailed code), putState key ms1 w1)
              | Some p \<Rightarrow>
                  (let ms2 = ms1\<lparr>env := (env ms1)
                         (env_raw_value \<mapsto> rawValue,
                          env_value \<mapsto> VFloat v,
                          env_last_value \<mapsto> VFloat (LastExprValue (dynamic ms1)),
                          env_last_raw_value \<mapsto> LastExprRawValue (dynamic ms1),
                          env_last_result \<mapsto> VStr (LastExprResultString (dynamic ms1)),
                          env_elapsed \<mapsto>
                            VDur (if LastExprTimestamp (dynamic ms1) = 0 then 0
                                  else Sub (now w1) (LastExprTimestamp (dynamic ms1))))\<rparr>
                   in case p (env ms2) of
                        None \<Rightarrow> (Err (LabelEvalFailed code), putState key ms2 w1)
                      | Some res \<Rightarrow>
                          (Ok (Sprint L res),
                           putState key
                             (ms2\<lparr>dynamic := (dynamic ms2)
                                    \<lparr>LastExprResultString := Sprint L res,
                                     LastExprValue := v,
                                     LastExprTimestamp := now w1\<rparr>\<rparr>) w1)))
      | (Err e, w1) \<Rightarrow> (Err e, w1)
      | (Panic, w1) \<Rightarrow> (Panic, w1))"

section \<open>The pipeline: parseMetric\<close>

text \<open>
  The idiom that follows each fallible step of \<^verbatim>\<open>parseMetric\<close>: on an error the working
  value becomes \<^verbatim>\<open>*cfg.ErrorValue\<close> when that is set, and the error is returned otherwise.
\<close>

definition orErrorValue :: "MetricConfig \<Rightarrow> real result \<times> world \<Rightarrow> real result \<times> world" where
  "orErrorValue cfg rw =
     (case rw of
        (Err e, w) \<Rightarrow> (case ErrorValue cfg of Some ev \<Rightarrow> (Ok ev, w) | None \<Rightarrow> (Err e, w))
      | (Ok x, w) \<Rightarrow> (Ok x, w)
      | (Panic, w) \<Rightarrow> (Panic, w))"

text \<open>The type switch on the input, lines 199 to 245 of \<^verbatim>\<open>parseMetric\<close>.\<close>

definition coerceValue :: "lib \<Rightarrow> MetricConfig \<Rightarrow> val \<Rightarrow> real result" where
  "coerceValue L cfg raw =
     (case raw of
        VBool b \<Rightarrow> Ok (if b then 1 else 0)
      | VStr s \<Rightarrow>
          (case StringValueMapping cfg of
             Some svm \<Rightarrow>
               (case SVM_Map svm s of
                  Some f \<Rightarrow> Ok f
                | None \<Rightarrow>
                    (case SVM_ErrorValue svm of
                       Some ev \<Rightarrow> Ok ev
                     | None \<Rightarrow>
                         (case ErrorValue cfg of
                            Some ev \<Rightarrow> Ok ev
                          | None \<Rightarrow> Err (UnexpectedString s))))
           | None \<Rightarrow>
               (case ParseFloat L s of
                  None \<Rightarrow>
                    (case ErrorValue cfg of
                       Some ev \<Rightarrow> Ok ev
                     | None \<Rightarrow> Err (ParseFloatFailed raw))
                | Some f \<Rightarrow> Ok f))
      | VFloat f \<Rightarrow> Ok f
      | _ \<Rightarrow>
          (case ErrorValue cfg of
             Some ev \<Rightarrow> Ok ev
           | None \<Rightarrow> Err (UnexpectedType raw)))"

text \<open>Lines 189 to 256: the raw expression, or the type switch and the expression.\<close>

definition resolveValue ::
  "lib \<Rightarrow> MetricConfig \<Rightarrow> string \<Rightarrow> val \<Rightarrow> world \<Rightarrow> real result \<times> world" where
  "resolveValue L cfg metricID raw w =
     (if RawExpression cfg \<noteq> [] then
        orErrorValue cfg (evalExpressionValue L metricID (RawExpression cfg) raw 0 w)
      else
        (case coerceValue L cfg raw of
           Ok mv \<Rightarrow>
             if Expression cfg \<noteq> [] then
               orErrorValue cfg (evalExpressionValue L metricID (Expression cfg) raw mv w)
             else (Ok mv, w)
         | Err e \<Rightarrow> (Err e, w)
         | Panic \<Rightarrow> (Panic, w)))"

text \<open>The loop over the dynamic labels, lines 281 to 287.\<close>

fun evalLabels ::
  "lib \<Rightarrow> string \<Rightarrow> (string \<times> string) list \<Rightarrow> val \<Rightarrow> real \<Rightarrow> (string \<Rightarrow> string option) \<Rightarrow>
   world \<Rightarrow> (string \<Rightarrow> string option) result \<times> world" where
  "evalLabels L metricID [] raw mv labels w = (Ok labels, w)"
| "evalLabels L metricID ((k, c) # rest) raw mv labels w =
     (case evalExpressionLabel L metricID k c raw mv w of
        (Ok s, w1) \<Rightarrow> evalLabels L metricID rest raw mv (labels(k \<mapsto> s)) w1
      | (Err e, w1) \<Rightarrow> (Err e, w1)
      | (Panic, w1) \<Rightarrow> (Panic, w1))"

definition parseMetric ::
  "lib \<Rightarrow> MetricConfig \<Rightarrow> string \<Rightarrow> val \<Rightarrow> world \<Rightarrow> Metric result \<times> world" where
  "parseMetric L cfg metricID raw w =
     (case resolveValue L cfg metricID raw w of
        (Ok mv1, w1) \<Rightarrow>
          (case (if ForceMonotonicy cfg
                 then orErrorValue cfg (enforceMonotonicy metricID mv1 w1)
                 else (Ok mv1, w1)) of
             (Ok mv2, w2) \<Rightarrow>
               (let mv3 = (if MQTTValueScale cfg \<noteq> 0 then mv2 * MQTTValueScale cfg else mv2);
                    ingestTime = (if \<not> OmitTimestamp cfg then now w2 else 0)
                in case (if length (dynamicLabelsList cfg) > 0
                         then evalLabels L metricID (dynamicLabelsList cfg) raw mv3 Map.empty w2
                         else (Ok Map.empty, w2)) of
                     (Ok labels, w3) \<Rightarrow>
                       (Ok \<lparr>Description = PrometheusDescription cfg,
                            Value = mv3,
                            Metric_ValueType = PrometheusValueType cfg,
                            IngestTime = ingestTime,
                            Labels = labels,
                            LabelsKeys = DynamicLabelsKeys cfg\<rparr>, w3)
                   | (Err e, w3) \<Rightarrow> (Err e, w3)
                   | (Panic, w3) \<Rightarrow> (Panic, w3))
           | (Err e, w2) \<Rightarrow> (Err e, w2)
           | (Panic, w2) \<Rightarrow> (Panic, w2))
      | (Err e, w1) \<Rightarrow> (Err e, w1)
      | (Panic, w1) \<Rightarrow> (Panic, w1))"

text \<open>
  Feeding a sequence of messages to one rule: each message comes with the time at which it
  is processed, and the results are collected in order.
\<close>

fun feed ::
  "lib \<Rightarrow> MetricConfig \<Rightarrow> string \<Rightarrow> (int \<times> val) list \<Rightarrow> world \<Rightarrow> Metric result list" where
  "feed L cfg metricID [] w = []"
| "feed L cfg metricID ((t, raw) # rest) w =
     (case parseMetric L cfg metricID raw (w\<lparr>now := t\<rparr>) of
        (res, w1) \<Rightarrow> res # feed L cfg metricID rest w1)"

section \<open>Configuration loading (pkg/config/config.go)\<close>

record JsonParsingConfig =
  Separator :: string

record CacheConfig =
  Timeout :: int
  StateDir :: string

record ObjectPerTopicConfig =
  Encoding :: string

record MetricPerTopicConfig =
  MetricNameRegex :: "Regexp option"

record MQTTConfig =
  Server :: string
  TopicPath :: string
  DeviceIDRegex :: "Regexp option"
  User :: string
  Password :: string
  QoS :: nat
  ObjectPerTopic :: "ObjectPerTopicConfig option"
  MetricPerTopic :: "MetricPerTopicConfig option"
  CACert :: string
  ClientCert :: string
  ClientKey :: string
  ClientID :: string

record BlockConfig =
  SharedValues :: MetricConfig
  Metrics :: "MetricConfig list"

record Config =
  JsonParsing :: "JsonParsingConfig option"
  Config_Metrics :: "BlockConfig list"
  MQTT :: "MQTTConfig option"
  Cache :: "CacheConfig option"
  EnableProfiling :: bool



text \<open>The zero values \<^verbatim>\<open>Regexp{}\<close>, \<^verbatim>\<open>MetricConfig{}\<close> and \<^verbatim>\<open>Config{}\<close>.\<close>

definition zeroRegexp :: Regexp where
  "zeroRegexp = \<lparr>regexp_r = None, pattern = []\<rparr>"

definition zeroMetricConfig :: MetricConfig where
  "zeroMetricConfig =
     \<lparr>PrometheusName = [], MQTTName = [], PayloadField = [], SensorNameFilter = zeroRegexp,
      TopicPathFilter = None, Help = [], ValueType = [], OmitTimestamp = False,
      RawExpression = [], Expression = [], ForceMonotonicy = False, ConstantLabels = None,
      DynamicLabels = None, StringValueMapping = None, MQTTValueScale = 0,
      ErrorValue = None\<rparr>"


text \<open>
  \<^verbatim>\<open>MustNewRegexp\<close> compiles its pattern; the group names of the two patterns the package
  compiles this way are written out.
\<close>

definition MetricConfigDefaults :: MetricConfig where
  "MetricConfigDefaults =
     zeroMetricConfig\<lparr>TopicPathFilter :=
       Some \<lparr>regexp_r = Some (Regex [[]]), pattern = ''.*''\<rparr>\<rparr>"

definition MQTTConfigDefaults :: MQTTConfig where
  "MQTTConfigDefaults =
     \<lparr>Server = ''tcp://127.0.0.1:1883'', TopicPath = ''v1/devices/me'',
      DeviceIDRegex =
        Some \<lparr>regexp_r = Some (Regex [[], [], ''deviceid'']),
              pattern = ''(.*/)?(?P<deviceid>.*)''\<rparr>,
      User = [], Password = [], QoS = 0, ObjectPerTopic = None, MetricPerTopic = None,
      CACert = [], ClientCert = [], ClientKey = [], ClientID = []\<rparr>"

definition CacheConfigDefaults :: CacheConfig where
  "CacheConfigDefaults = \<lparr>Timeout = 2 * Minute, StateDir = ''/var/lib/mqtt2prometheus''\<rparr>"

definition JsonParsingConfigDefaults :: JsonParsingConfig where
  "JsonParsingConfigDefaults = \<lparr>Separator = ''.''\<rparr>"

subsection \<open>The merge by reflection, lines 254 to 270\<close>

text \<open>
  The merge walks the fields of \<^verbatim>\<open>MetricConfig\<close> through \<^verbatim>\<open>reflect\<close>.  A \<open>field\<close> names one
  of them, in the order of the struct; a \<open>fval\<close> is a \<^verbatim>\<open>reflect.Value\<close> of one of the field
  types, and \<open>Type\<close> is its Go type.
\<close>

datatype field =
    F_PrometheusName
  | F_MQTTName
  | F_PayloadField
  | F_SensorNameFilter
  | F_TopicPathFilter
  | F_Help
  | F_ValueType
  | F_OmitTimestamp
  | F_RawExpression
  | F_Expression
  | F_ForceMonotonicy
  | F_ConstantLabels
  | F_DynamicLabels
  | F_StringValueMapping
  | F_MQTTValueScale
  | F_ErrorValue

datatype fval =
    StringV string
  | RegexpV Regexp
  | RegexpPtrV "Regexp option"
  | BoolV bool
  | ConstLabelsV "(string \<Rightarrow> string option) option"
  | DynLabelsV "(string \<times> string) list option"
  | MappingPtrV "StringValueMappingConfig option"
  | Float64V real
  | Float64PtrV "real option"

datatype ftype =
    T_string
  | T_Regexp
  | T_RegexpPtr
  | T_bool
  | T_map_string_string
  | T_StringValueMappingPtr
  | T_float64
  | T_float64Ptr

definition fields :: "field list" where
  "fields =
     [F_PrometheusName, F_MQTTName, F_PayloadField, F_SensorNameFilter, F_TopicPathFilter,
      F_Help, F_ValueType, F_OmitTimestamp, F_RawExpression, F_Expression, F_ForceMonotonicy,
      F_ConstantLabels, F_DynamicLabels, F_StringValueMapping, F_MQTTValueScale,
      F_ErrorValue]"

fun Type :: "fval \<Rightarrow> ftype" where
  "Type (StringV _) = T_string"
| "Type (RegexpV _) = T_Regexp"
| "Type (RegexpPtrV _) = T_RegexpPtr"
| "Type (BoolV _) = T_bool"
| "Type (ConstLabelsV _) = T_map_string_string"
| "Type (DynLabelsV _) = T_map_string_string"
| "Type (MappingPtrV _) = T_StringValueMappingPtr"
| "Type (Float64V _) = T_float64"
| "Type (Float64PtrV _) = T_float64Ptr"

text \<open>\<^verbatim>\<open>reflect.Value.IsZero\<close>: the empty string, the struct of zero fields, nil, false, 0.\<close>

fun IsZero :: "fval \<Rightarrow> bool" where
  "IsZero (StringV s) = (s = [])"
| "IsZero (RegexpV re) = (regexp_r re = None \<and> pattern re = [])"
| "IsZero (RegexpPtrV p) = (p = None)"
| "IsZero (BoolV b) = (\<not> b)"
| "IsZero (ConstLabelsV m) = (m = None)"
| "IsZero (DynLabelsV m) = (m = None)"
| "IsZero (MappingPtrV p) = (p = None)"
| "IsZero (Float64V x) = (x = 0)"
| "IsZero (Float64PtrV p) = (p = None)"

fun getField :: "field \<Rightarrow> MetricConfig \<Rightarrow> fval" where
  "getField F_PrometheusName mc = StringV (PrometheusName mc)"
| "getField F_MQTTName mc = StringV (MQTTName mc)"
| "getField F_PayloadField mc = StringV (PayloadField mc)"
| "getField F_SensorNameFilter mc = RegexpV (SensorNameFilter mc)"
| "getField F_TopicPathFilter mc = RegexpPtrV (TopicPathFilter mc)"
| "getField F_Help mc = StringV (Help mc)"
| "getField F_ValueType mc = StringV (ValueType mc)"
| "getField F_OmitTimestamp mc = BoolV (OmitTimestamp mc)"
| "getField F_RawExpression mc = StringV (RawExpression mc)"
| "getField F_Expression mc = StringV (Expression mc)"
| "getField F_ForceMonotonicy mc = BoolV (ForceMonotonicy mc)"
| "getField F_ConstantLabels mc = ConstLabelsV (ConstantLabels mc)"
| "getField F_DynamicLabels mc = DynLabelsV (DynamicLabels mc)"
| "getField F_StringValueMapping mc = MappingPtrV (StringValueMapping mc)"
| "getField F_MQTTValueScale mc = Float64V (MQTTValueScale mc)"
| "getField F_ErrorValue mc = Float64PtrV (ErrorValue mc)"

text \<open>
  \<^verbatim>\<open>dstField.Set\<close>.  The merge only calls it with a value of the field's own type; any other
  combination leaves the struct as it is.
\<close>

fun setField :: "field \<Rightarrow> fval \<Rightarrow> MetricConfig \<Rightarrow> MetricConfig" where
  "setField F_PrometheusName v mc = (case v of StringV s \<Rightarrow> mc\<lparr>PrometheusName := s\<rparr> | _ \<Rightarrow> mc)"
| "setField F_MQTTName v mc = (case v of StringV s \<Rightarrow> mc\<lparr>MQTTName := s\<rparr> | _ \<Rightarrow> mc)"
| "setField F_PayloadField v mc = (case v of StringV s \<Rightarrow> mc\<lparr>PayloadField := s\<rparr> | _ \<Rightarrow> mc)"
| "setField F_SensorNameFilter v mc = (case v of RegexpV re \<Rightarrow> mc\<lparr>SensorNameFilter := re\<rparr> | _ \<Rightarrow> mc)"
| "setField F_TopicPathFilter v mc = (case v of RegexpPtrV p \<Rightarrow> mc\<lparr>TopicPathFilter := p\<rparr> | _ \<Rightarrow> mc)"
| "setField F_Help v mc = (case v of StringV s \<Rightarrow> mc\<lparr>Help := s\<rparr> | _ \<Rightarrow> mc)"
| "setField F_ValueType v mc = (case v of StringV s \<Rightarrow> mc\<lparr>ValueType := s\<rparr> | _ \<Rightarrow> mc)"
| "setField F_OmitTimestamp v mc = (case v of BoolV b \<Rightarrow> mc\<lparr>OmitTimestamp := b\<rparr> | _ \<Rightarrow> mc)"
| "setField F_RawExpression v mc = (case v of StringV s \<Rightarrow> mc\<lparr>RawExpression := s\<rparr> | _ \<Rightarrow> mc)"
| "setField F_Expression v mc = (case v of StringV s \<Rightarrow> mc\<lparr>Expression := s\<rparr> | _ \<Rightarrow> mc)"
| "setField F_ForceMonotonicy v mc = (case v of BoolV b \<Rightarrow> mc\<lparr>ForceMonotonicy := b\<rparr> | _ \<Rightarrow> mc)"
| "setField F_ConstantLabels v mc = (case v of ConstLabelsV m \<Rightarrow> mc\<lparr>ConstantLabels := m\<rparr> | _ \<Rightarrow> mc)"
| "setField F_DynamicLabels v mc = (case v of DynLabelsV m \<Rightarrow> mc\<lparr>DynamicLabels := m\<rparr> | _ \<Rightarrow> mc)"
| "setField F_StringValueMapping v mc = (case v of MappingPtrV p \<Rightarrow> mc\<lparr>StringValueMapping := p\<rparr> | _ \<Rightarrow> mc)"
| "setField F_MQTTValueScale v mc = (case v of Float64V x \<Rightarrow> mc\<lparr>MQTTValueScale := x\<rparr> | _ \<Rightarrow> mc)"
| "setField F_ErrorValue v mc = (case v of Float64PtrV p \<Rightarrow> mc\<lparr>ErrorValue := p\<rparr> | _ \<Rightarrow> mc)"

text \<open>
  The innermost loop, lines 261 to 267.  Target and source are of the same struct type, so
  \<^verbatim>\<open>FieldByName\<close> finds the field of the same name, which is valid and settable.
\<close>

definition inheritField :: "MetricConfig \<Rightarrow> MetricConfig \<Rightarrow> field \<Rightarrow> MetricConfig" where
  "inheritField source tgt f =
     (if IsZero (getField f tgt) \<and> Type (getField f tgt) = Type (getField f source)
         \<and> \<not> IsZero (getField f source)
      then setField f (getField f source) tgt
      else tgt)"

definition inheritFields :: "MetricConfig \<Rightarrow> MetricConfig \<Rightarrow> MetricConfig" where
  "inheritFields source tgt = foldl (inheritField source) tgt fields"

definition mergeBlock :: "BlockConfig \<Rightarrow> BlockConfig" where
  "mergeBlock metric =
     metric\<lparr>Metrics :=
       foldl (\<lambda>targets source. map (inheritFields source) targets)
         (Metrics metric) [SharedValues metric, MetricConfigDefaults]\<rparr>"

definition mergeMetrics :: "BlockConfig list \<Rightarrow> BlockConfig list" where
  "mergeMetrics blocks = map mergeBlock blocks"

text \<open>
  The rule of the specification for one field: the concrete fragment's value when it is set,
  else the shared fragment's when that is set, else the default fragment's.
\<close>

definition spec_resolved :: "fval \<Rightarrow> fval \<Rightarrow> fval \<Rightarrow> fval" where
  "spec_resolved c s d = (if \<not> IsZero c then c else if \<not> IsZero s then s else d)"

subsection \<open>Validation, lines 272 to 296\<close>




subsection \<open>LoadConfig\<close>



text \<open>Lines 211 to 225: the defaults of the sections that are missing.\<close>

definition withDefaults :: "Config \<Rightarrow> Config" where
  "withDefaults cfg =
     (let mqtt = (case MQTT cfg of None \<Rightarrow> MQTTConfigDefaults | Some m \<Rightarrow> m);
          cache = (case Cache cfg of None \<Rightarrow> CacheConfigDefaults | Some c \<Rightarrow> c);
          cache1 = (if StateDir cache = [] then cache\<lparr>StateDir := StateDir CacheConfigDefaults\<rparr>
                    else cache);
          json = (case JsonParsing cfg of None \<Rightarrow> JsonParsingConfigDefaults | Some j \<Rightarrow> j);
          mqtt1 = (if DeviceIDRegex mqtt = None
                   then mqtt\<lparr>DeviceIDRegex := DeviceIDRegex MQTTConfigDefaults\<rparr>
                   else mqtt)
      in cfg\<lparr>MQTT := Some mqtt1, Cache := Some cache1, JsonParsing := Some json\<rparr>)"





section \<open>Notions used in the statements\<close>

text \<open>The offset \<^verbatim>\<open>enforceMonotonicy\<close> leaves in a state \<open>d\<close> when it is given \<open>v\<close>.\<close>

definition newOffset :: "dynamicState \<Rightarrow> real \<Rightarrow> real" where
  "newOffset d v = (if v < LastRawValue d then Offset d + LastRawValue d else Offset d)"

text \<open>
  The world holds a state for the metric with the given offset and last raw value, and
  writing its state file succeeds.
\<close>

definition tracks :: "string \<Rightarrow> real \<Rightarrow> real \<Rightarrow> world \<Rightarrow> bool" where
  "tracks metricID off lastv w \<longleftrightarrow>
     (\<exists>st. states w metricID = Some st \<and> Offset (dynamic st) = off
        \<and> LastRawValue (dynamic st) = lastv)
     \<and> writeResult w (stateFileName w metricID) = WriteOk"

text \<open>
  The durable state the next call for a metric works on: the one held in memory, else the
  one its state file holds; none when the file is there and cannot be loaded.
\<close>

definition knownState :: "string \<Rightarrow> world \<Rightarrow> dynamicState option" where
  "knownState metricID w =
     (case states w metricID of
        Some ms \<Rightarrow> Some (dynamic ms)
      | None \<Rightarrow>
          (case files w (stateFileName w metricID) of
             Content d \<Rightarrow> Some d
           | NotExist \<Rightarrow> Some zeroDynamic
           | _ \<Rightarrow> None))"

definition nonNegative :: "string \<Rightarrow> world \<Rightarrow> bool" where
  "nonNegative metricID w \<longleftrightarrow>
     (case knownState metricID w of
        None \<Rightarrow> True
      | Some d \<Rightarrow> 0 \<le> Offset d \<and> 0 \<le> LastRawValue d)"

text \<open>
  A sequence of calls of \<^verbatim>\<open>enforceMonotonicy\<close> for one metric.  Each call comes with the
  time at which it runs and with what writing a state file does at that time.
\<close>

fun enforceAll ::
  "string \<Rightarrow> (int \<times> (string \<Rightarrow> write_outcome) \<times> real) list \<Rightarrow> world \<Rightarrow> real result list" where
  "enforceAll metricID [] w = []"
| "enforceAll metricID ((t, wr, v) # rest) w =
     (case enforceMonotonicy metricID v (w\<lparr>now := t, writeResult := wr\<rparr>) of
        (res, w1) \<Rightarrow> res # enforceAll metricID rest w1)"

text \<open>The values of the calls that returned without an error, in order.\<close>

fun returned :: "'a result list \<Rightarrow> 'a list" where
  "returned [] = []"
| "returned (Ok x # rs) = x # returned rs"
| "returned (Err e # rs) = returned rs"
| "returned (Panic # rs) = returned rs"

text \<open>The working value after the scale step, lines 268 to 270.\<close>

definition scaled :: "MetricConfig \<Rightarrow> real \<Rightarrow> real" where
  "scaled cfg x = (if MQTTValueScale cfg \<noteq> 0 then x * MQTTValueScale cfg else x)"



section \<open>Example inputs\<close>

text \<open>
  An expression library that knows three programs: \<^verbatim>\<open>value\<close> and \<^verbatim>\<open>raw_value\<close> read a
  variable, \<^verbatim>\<open>1/0\<close> compiles and fails when it runs, and nothing else compiles.
\<close>

definition exampleLib :: lib where
  "exampleLib =
     \<lparr>Compile = (\<lambda>code e asFloat.
         if code = ''value'' then Some (\<lambda>env. env ''value'')
         else if code = ''raw_value'' then Some (\<lambda>env. env ''raw_value'')
         else if code = ''1/0'' then Some (\<lambda>env. None)
         else None),
      ParseFloat = (\<lambda>s. None),
      Sprint = (\<lambda>v. case v of
                       VStr s \<Rightarrow> s
                     | VBool b \<Rightarrow> (if b then ''true'' else ''false'')
                     | _ \<Rightarrow> ''?'')\<rparr>"

definition exampleTime :: int where
  "exampleTime = 63900000000000000000"

text \<open>A parser that has seen nothing yet, over an empty and writable state directory.\<close>

definition startWorld :: world where
  "startWorld =
     \<lparr>stateDir = ''/var/lib/mqtt2prometheus'', states = Map.empty, files = (\<lambda>name. NotExist),
      writeResult = (\<lambda>name. WriteOk), now = exampleTime\<rparr>"

text \<open>A rule that forces monotonicy, and four calls with the values 10, 20, 15, 25.\<close>

definition monotonicRule :: MetricConfig where
  "monotonicRule = zeroMetricConfig\<lparr>PrometheusName := ''energy'', ForceMonotonicy := True\<rparr>"

definition exampleInputs :: "(int \<times> (string \<Rightarrow> write_outcome) \<times> real) list" where
  "exampleInputs =
     [(exampleTime, (\<lambda>name. WriteOk), 10), (exampleTime, (\<lambda>name. WriteOk), 20),
      (exampleTime, (\<lambda>name. WriteOk), 15), (exampleTime, (\<lambda>name. WriteOk), 25)]"

text \<open>
  A rule with the string mapping STOPPED to 0 and RUNNING to 1, a rule with two dynamic
  labels, and a block whose shared fragment sets the help text and the type.
\<close>

definition statusRule :: MetricConfig where
  "statusRule =
     zeroMetricConfig
       \<lparr>PrometheusName := ''status'',
        StringValueMapping :=
          Some \<lparr>SVM_ErrorValue = None, SVM_Map = [''STOPPED'' \<mapsto> 0, ''RUNNING'' \<mapsto> 1]\<rparr>\<rparr>"

definition labelledRule :: MetricConfig where
  "labelledRule =
     zeroMetricConfig
       \<lparr>PrometheusName := ''temperature'',
        DynamicLabels := Some [(''zone'', ''raw_value''), (''axis'', ''raw_value'')]\<rparr>"

definition exampleBlock :: BlockConfig where
  "exampleBlock =
     \<lparr>SharedValues = zeroMetricConfig\<lparr>Help := ''shared help'', ValueType := ''gauge''\<rparr>,
      Metrics = [zeroMetricConfig\<lparr>PrometheusName := ''temperature'', Help := ''own help''\<rparr>]\<rparr>"





text \<open>A rule whose expression does not compile, with an error value.\<close>

definition brokenRule :: MetricConfig where
  "brokenRule =
     zeroMetricConfig\<lparr>PrometheusName := ''power'', Expression := ''value +'',
                      ErrorValue := Some (- 1)\<rparr>"

text \<open>
  Rules for the examples of expressions: the expression \<^verbatim>\<open>value\<close>, the raw expression
  \<^verbatim>\<open>raw_value\<close>, a dynamic label that shows the raw value, and a dynamic label whose
  program fails when it runs, on a rule with an error value.
\<close>

definition valueRule :: MetricConfig where
  "valueRule = zeroMetricConfig\<lparr>PrometheusName := ''power'', Expression := ''value''\<rparr>"

definition rawValueRule :: MetricConfig where
  "rawValueRule = zeroMetricConfig\<lparr>PrometheusName := ''power'', RawExpression := ''raw_value''\<rparr>"

definition zoneRule :: MetricConfig where
  "zoneRule =
     zeroMetricConfig\<lparr>PrometheusName := ''door'', DynamicLabels := Some [(''zone'', ''raw_value'')]\<rparr>"


section \<open>The state store\<close>

lemma writeMetricState_ok:
  "writeResult w (stateFileName w metricID) = WriteOk \<Longrightarrow>
   writeMetricState metricID st w =
     (None, w\<lparr>files := (files w)(stateFileName w metricID := Content (dynamic st))\<rparr>)"
  by (simp add: writeMetricState_def Let_def)

lemma getMetricState_cached_ok:
  assumes "states w metricID = Some st"
    and "writeResult w (stateFileName w metricID) = WriteOk"
  shows "\<exists>st' w'. getMetricState metricID w = (Ok st', w') \<and> dynamic st' = dynamic st \<and>
           program st' = program st \<and> env st' = env st \<and>
           states w' = (states w)(metricID \<mapsto> st') \<and> stateDir w' = stateDir w \<and>
           writeResult w' = writeResult w \<and> now w' = now w"
  using assms
  by (auto simp: getMetricState_def writeMetricState_ok putState_def fun_upd_idem)

lemma getMetricState_fresh_ok:
  assumes "states w metricID = None"
    and "files w (stateFileName w metricID) = NotExist"
    and "writeResult w (stateFileName w metricID) = WriteOk"
  shows "\<exists>st' w'. getMetricState metricID w = (Ok st', w') \<and> dynamic st' = zeroDynamic \<and>
           program st' = None \<and>
           states w' = (states w)(metricID \<mapsto> st') \<and> stateDir w' = stateDir w \<and>
           writeResult w' = writeResult w \<and> now w' = now w"
  using assms
  by (auto simp: getMetricState_def readMetricState_def writeMetricState_ok putState_def
      zeroState_def stateFileName_def)

lemma knownState_env [simp]:
  "knownState metricID (w\<lparr>now := t, writeResult := wr\<rparr>) = knownState metricID w"
  by (simp add: knownState_def stateFileName_def split: option.splits)

lemma getMetricState_known:
  assumes "getMetricState metricID w = (r, w1)"
  shows "case r of
           Ok ms \<Rightarrow> knownState metricID w = Some (dynamic ms) \<and> states w1 metricID = Some ms
                     \<and> stateDir w1 = stateDir w
         | Err e \<Rightarrow> knownState metricID w1 = knownState metricID w
         | Panic \<Rightarrow> knownState metricID w1 = knownState metricID w"
  using assms
  by (auto simp: getMetricState_def readMetricState_def writeMetricState_def putState_def
      knownState_def stateFileName_def zeroState_def Let_def
      split: option.splits state_file.splits write_outcome.splits if_splits result.splits)

section \<open>Monotonicity enforcement\<close>

lemma enforceMonotonicy_Ok:
  assumes "getMetricState metricID w = (Ok ms, w1)"
  shows "enforceMonotonicy metricID v w =
           (Ok (v + newOffset (dynamic ms) v),
            putState metricID
              (ms\<lparr>dynamic := (dynamic ms)\<lparr>Offset := newOffset (dynamic ms) v, LastRawValue := v\<rparr>,
                  lastWritten := (if v < LastRawValue (dynamic ms) then 0 else lastWritten ms)\<rparr>)
              w1)"
  using assms by (cases ms) (simp add: enforceMonotonicy_def newOffset_def Let_def)


lemma enforceMonotonicy_known:
  assumes "enforceMonotonicy metricID v w = (r, w1)"
  shows "case r of
           Ok y \<Rightarrow> (\<exists>d. knownState metricID w = Some d \<and>
                     knownState metricID w1 =
                       Some (d\<lparr>Offset := newOffset d v, LastRawValue := v\<rparr>) \<and>
                     y = v + newOffset d v)
         | Err e \<Rightarrow> knownState metricID w1 = knownState metricID w
         | Panic \<Rightarrow> knownState metricID w1 = knownState metricID w"
proof (cases "getMetricState metricID w")
  case (Pair g w0)
  show ?thesis
  proof (cases g)
    case (Ok ms)
    from getMetricState_known[OF Pair] Ok
    have k: "knownState metricID w = Some (dynamic ms)" by simp
    from assms enforceMonotonicy_Ok[of metricID w ms w0 v] Pair Ok
    show ?thesis using k by (auto simp: knownState_def putState_def)
  next
    case (Err e)
    with assms Pair getMetricState_known[OF Pair] show ?thesis
      by (auto simp: enforceMonotonicy_def)
  next
    case Panic
    with assms Pair getMetricState_known[OF Pair] show ?thesis
      by (auto simp: enforceMonotonicy_def)
  qed
qed

lemma parseMetric_plain_monotonic:
  assumes "ForceMonotonicy cfg" "RawExpression cfg = []" "Expression cfg = []"
    and "DynamicLabels cfg = None"
  shows "parseMetric L cfg metricID (VFloat x) w =
     (case orErrorValue cfg (enforceMonotonicy metricID x w) of
        (Ok y, w2) \<Rightarrow>
          (Ok \<lparr>Description = PrometheusDescription cfg,
               Value = (if MQTTValueScale cfg \<noteq> 0 then y * MQTTValueScale cfg else y),
               Metric_ValueType = PrometheusValueType cfg,
               IngestTime = (if \<not> OmitTimestamp cfg then now w2 else 0),
               Labels = Map.empty,
               LabelsKeys = DynamicLabelsKeys cfg\<rparr>, w2)
      | (Err e, w2) \<Rightarrow> (Err e, w2)
      | (Panic, w2) \<Rightarrow> (Panic, w2))"
  using assms
  by (simp add: parseMetric_def resolveValue_def coerceValue_def dynamicLabelsList_def Let_def
      split: prod.splits result.splits)

lemma tracks_now [simp]: "tracks metricID off lastv (w\<lparr>now := t\<rparr>) = tracks metricID off lastv w"
  by (simp add: tracks_def stateFileName_def)

lemma plain_step_cached:
  assumes cfg: "ForceMonotonicy cfg" "RawExpression cfg = []" "Expression cfg = []"
      "DynamicLabels cfg = None" "MQTTValueScale cfg = 0"
    and tr: "tracks metricID off lastv w"
  shows "\<exists>m w'. parseMetric L cfg metricID (VFloat x) w = (Ok m, w') \<and>
           Value m = x + (if x < lastv then off + lastv else off) \<and>
           tracks metricID (if x < lastv then off + lastv else off) x w'"
proof -
  from tr obtain st where st: "states w metricID = Some st" "Offset (dynamic st) = off"
     "LastRawValue (dynamic st) = lastv"
    and wr: "writeResult w (stateFileName w metricID) = WriteOk"
    by (auto simp: tracks_def)
  from getMetricState_cached_ok[OF st(1) wr] obtain st' w1 where
    g: "getMetricState metricID w = (Ok st', w1)" and d: "dynamic st' = dynamic st"
    and w1: "stateDir w1 = stateDir w" "writeResult w1 = writeResult w"
    by blast
  show ?thesis
    using cfg st wr d w1
    by (simp add: parseMetric_plain_monotonic enforceMonotonicy_Ok[OF g] orErrorValue_def
        newOffset_def tracks_def putState_def stateFileName_def)
qed

lemma plain_step_fresh:
  assumes cfg: "ForceMonotonicy cfg" "RawExpression cfg = []" "Expression cfg = []"
      "DynamicLabels cfg = None" "MQTTValueScale cfg = 0"
    and fresh: "states w metricID = None" "files w (stateFileName w metricID) = NotExist"
      "writeResult w (stateFileName w metricID) = WriteOk"
  shows "\<exists>m w'. parseMetric L cfg metricID (VFloat x) w = (Ok m, w') \<and> Value m = x \<and>
           tracks metricID 0 x w'"
proof -
  from getMetricState_fresh_ok[OF fresh] obtain st' w1 where
    g: "getMetricState metricID w = (Ok st', w1)" and d: "dynamic st' = zeroDynamic"
    and w1: "stateDir w1 = stateDir w" "writeResult w1 = writeResult w"
    by blast
  show ?thesis
    using cfg fresh d w1
    by (simp add: parseMetric_plain_monotonic enforceMonotonicy_Ok[OF g] orErrorValue_def
        newOffset_def tracks_def putState_def stateFileName_def zeroDynamic_def)
qed

lemma feed_10_20_15_25:
  assumes cfg: "ForceMonotonicy cfg" "RawExpression cfg = []" "Expression cfg = []"
      "DynamicLabels cfg = None" "MQTTValueScale cfg = 0"
    and fresh: "states w metricID = None" "files w (stateFileName w metricID) = NotExist"
      "writeResult w (stateFileName w metricID) = WriteOk"
  shows "map (map_result Value)
           (feed L cfg metricID
              [(t1, VFloat 10), (t2, VFloat 20), (t3, VFloat 15), (t4, VFloat 25)] w)
         = [Ok 10, Ok 20, Ok 35, Ok 45]"
proof -
  have fresh': "states (w\<lparr>now := t1\<rparr>) metricID = None"
    "files (w\<lparr>now := t1\<rparr>) (stateFileName (w\<lparr>now := t1\<rparr>) metricID) = NotExist"
    "writeResult (w\<lparr>now := t1\<rparr>) (stateFileName (w\<lparr>now := t1\<rparr>) metricID) = WriteOk"
    using fresh by (simp_all add: stateFileName_def)
  from plain_step_fresh[OF cfg fresh', of L 10] obtain m1 w1 where
    s1: "parseMetric L cfg metricID (VFloat 10) (w\<lparr>now := t1\<rparr>) = (Ok m1, w1)"
      "Value m1 = 10" "tracks metricID 0 10 w1" by auto
  from plain_step_cached[OF cfg, of metricID 0 10 "w1\<lparr>now := t2\<rparr>" L 20] s1(3)
  obtain m2 w2 where
    s2: "parseMetric L cfg metricID (VFloat 20) (w1\<lparr>now := t2\<rparr>) = (Ok m2, w2)"
      "Value m2 = 20" "tracks metricID 0 20 w2" by auto
  from plain_step_cached[OF cfg, of metricID 0 20 "w2\<lparr>now := t3\<rparr>" L 15] s2(3)
  obtain m3 w3 where
    s3: "parseMetric L cfg metricID (VFloat 15) (w2\<lparr>now := t3\<rparr>) = (Ok m3, w3)"
      "Value m3 = 35" "tracks metricID 20 15 w3" by auto
  from plain_step_cached[OF cfg, of metricID 20 15 "w3\<lparr>now := t4\<rparr>" L 25] s3(3)
  obtain m4 w4 where
    s4: "parseMetric L cfg metricID (VFloat 25) (w3\<lparr>now := t4\<rparr>) = (Ok m4, w4)"
      "Value m4 = 45" "tracks metricID 20 25 w4" by auto
  show ?thesis using s1 s2 s3 s4 by simp
qed

text \<open>
  Claim C1.  A rule that forces monotonicy and has no expression, no scale and no dynamic
  label is fed the numbers 10, 20, 15, 25, starting without any state in memory or on disk
  and with a writable state file: the metric values are 10, 20, 35, 45.  In general, once
  \<^verbatim>\<open>enforceMonotonicy\<close> has its state, it adds the stored last raw value to the stored offset
  exactly when the given value is strictly below the last raw value, stores the given value
  as the last raw value, and returns the given value plus the offset it stored.
\<close>

theorem forceMonotonicy_10_20_15_25:
  assumes "ForceMonotonicy cfg" and "RawExpression cfg = []" and "Expression cfg = []"
    and "DynamicLabels cfg = None" and "MQTTValueScale cfg = 0"
    and "states w metricID = None" and "files w (stateFileName w metricID) = NotExist"
    and "writeResult w (stateFileName w metricID) = WriteOk"
  shows "map (map_result Value)
           (feed L cfg metricID
              [(t1, VFloat 10), (t2, VFloat 20), (t3, VFloat 15), (t4, VFloat 25)] w)
         = [Ok 10, Ok 20, Ok 35, Ok 45] \<and>
         (\<forall>v w0 ms w1. getMetricState metricID w0 = (Ok ms, w1) \<longrightarrow>
            (\<exists>ms' w2. enforceMonotonicy metricID v w0 = (Ok (v + Offset (dynamic ms')), w2) \<and>
               states w2 metricID = Some ms' \<and>
               LastRawValue (dynamic ms') = v \<and>
               Offset (dynamic ms') =
                 (if v < LastRawValue (dynamic ms)
                  then Offset (dynamic ms) + LastRawValue (dynamic ms)
                  else Offset (dynamic ms))))"
proof (intro conjI allI impI)
  show "map (map_result Value)
           (feed L cfg metricID
              [(t1, VFloat 10), (t2, VFloat 20), (t3, VFloat 15), (t4, VFloat 25)] w)
         = [Ok 10, Ok 20, Ok 35, Ok 45]"
    using assms by (rule feed_10_20_15_25)
next
  fix v w0 ms w1
  assume g: "getMetricState metricID w0 = (Ok ms, w1)"
  show "\<exists>ms' w2. enforceMonotonicy metricID v w0 = (Ok (v + Offset (dynamic ms')), w2) \<and>
               states w2 metricID = Some ms' \<and>
               LastRawValue (dynamic ms') = v \<and>
               Offset (dynamic ms') =
                 (if v < LastRawValue (dynamic ms)
                  then Offset (dynamic ms) + LastRawValue (dynamic ms)
                  else Offset (dynamic ms))"
    by (simp add: enforceMonotonicy_Ok[OF g] putState_def newOffset_def)
qed

theorem forceMonotonicy_10_20_15_25_witness:
  "map (map_result Value)
     (feed exampleLib monotonicRule ''energy''
        [(exampleTime, VFloat 10), (exampleTime, VFloat 20),
         (exampleTime, VFloat 15), (exampleTime, VFloat 25)] startWorld)
   = [Ok 10, Ok 20, Ok 35, Ok 45]"
proof -
  have cfg: "ForceMonotonicy monotonicRule" "RawExpression monotonicRule = []"
    "Expression monotonicRule = []" "DynamicLabels monotonicRule = None"
    "MQTTValueScale monotonicRule = 0"
    by (simp_all add: monotonicRule_def zeroMetricConfig_def)
  have w: "states startWorld ''energy'' = None"
    "files startWorld (stateFileName startWorld ''energy'') = NotExist"
    "writeResult startWorld (stateFileName startWorld ''energy'') = WriteOk"
    by (simp_all add: startWorld_def)
  from forceMonotonicy_10_20_15_25[OF cfg w] show ?thesis by blast
qed

lemma enforceAll_sorted_aux:
  assumes "nonNegative metricID w"
    and "list_all (\<lambda>(t, wr, v). 0 \<le> v) inputs"
  shows "sorted (returned (enforceAll metricID inputs w)) \<and>
         (\<forall>y \<in> set (returned (enforceAll metricID inputs w)).
            case knownState metricID w of
              None \<Rightarrow> True
            | Some d \<Rightarrow> LastRawValue d + Offset d \<le> y)"
  using assms
proof (induction inputs arbitrary: w)
  case Nil
  then show ?case by simp
next
  case (Cons a inputs)
  obtain t wr v where a: "a = (t, wr, v)" by (cases a)
  let ?w = "w\<lparr>now := t, writeResult := wr\<rparr>"
  obtain r w1 where step: "enforceMonotonicy metricID v ?w = (r, w1)" by force
  from Cons.prems a have v: "0 \<le> v" and rest: "list_all (\<lambda>(t, wr, v). 0 \<le> v) inputs" by auto
  note k = enforceMonotonicy_known[OF step]
  show ?case
  proof (cases r)
    case (Ok y)
    with k obtain d where d: "knownState metricID w = Some d"
      "knownState metricID w1 = Some (d\<lparr>Offset := newOffset d v, LastRawValue := v\<rparr>)"
      "y = v + newOffset d v" by auto
    from Cons.prems(1) d(1) have nn: "0 \<le> Offset d" "0 \<le> LastRawValue d"
      by (auto simp: nonNegative_def)
    have nn1: "nonNegative metricID w1"
      using d(2) nn v by (simp add: nonNegative_def newOffset_def)
    from Cons.IH[OF nn1 rest] d(2)
    have ih: "sorted (returned (enforceAll metricID inputs w1))"
      "\<forall>z \<in> set (returned (enforceAll metricID inputs w1)). y \<le> z"
      using d(3) by (auto simp: add.commute)
    have yb: "LastRawValue d + Offset d \<le> y"
      using d(3) nn v by (simp add: newOffset_def)
    show ?thesis using a step Ok ih yb d(1) by auto
  next
    case (Err e)
    with k have same: "knownState metricID w1 = knownState metricID w" by simp
    then have "nonNegative metricID w1" using Cons.prems(1) by (simp add: nonNegative_def)
    from Cons.IH[OF this rest] show ?thesis using a step Err same by simp
  next
    case Panic
    with k have same: "knownState metricID w1 = knownState metricID w" by simp
    then have "nonNegative metricID w1" using Cons.prems(1) by (simp add: nonNegative_def)
    from Cons.IH[OF this rest] show ?thesis using a step Panic same by simp
  qed
qed

lemma enforceAll_all_return:
  assumes "knownState metricID w \<noteq> None"
    and "list_all (\<lambda>(t, wr, v). \<forall>name. wr name = WriteOk) inputs"
  shows "length (returned (enforceAll metricID inputs w)) = length inputs"
  using assms
proof (induction inputs arbitrary: w)
  case Nil
  then show ?case by simp
next
  case (Cons a inputs)
  obtain t wr v where a: "a = (t, wr, v)" by (cases a)
  let ?w = "w\<lparr>now := t, writeResult := wr\<rparr>"
  from Cons.prems a have wr: "\<And>name. wr name = WriteOk"
    and rest: "list_all (\<lambda>(t, wr, v). \<forall>name. wr name = WriteOk) inputs" by auto
  have "\<exists>ms w0. getMetricState metricID ?w = (Ok ms, w0)"
    using Cons.prems(1) wr
    by (auto simp: getMetricState_def readMetricState_def writeMetricState_def putState_def
      knownState_def stateFileName_def zeroState_def Let_def
      split: option.splits state_file.splits)
  then obtain ms w0 where g: "getMetricState metricID ?w = (Ok ms, w0)" by blast
  note e = enforceMonotonicy_Ok[OF g, of v]
  from enforceMonotonicy_known[OF e]
  have "knownState metricID (snd (enforceMonotonicy metricID v ?w)) \<noteq> None"
    using e by auto
  from Cons.IH[OF this rest] show ?case using a e by simp
qed

lemma enforceAll_example:
  "enforceAll ''energy'' exampleInputs startWorld = [Ok 10, Ok 20, Ok 35, Ok 45]"
  by (simp add: exampleInputs_def startWorld_def exampleTime_def enforceMonotonicy_def
      getMetricState_def readMetricState_def writeMetricState_def putState_def
      stateFileName_def zeroState_def zeroDynamic_def Let_def Sub_def Minute_def
      maxDuration_def minDuration_def)

text \<open>
  Claim C9.  Calls of \<^verbatim>\<open>enforceMonotonicy\<close> for one metric, with values that are not
  negative, from a state whose offset and last raw value are not negative: the values the
  calls return are in non-decreasing order, whatever the clock shows and whichever writes of
  the state file fail (a call that fails returns an error, leaves the state as it was, and
  its value is not part of the sequence).  When the state can be loaded and every write
  succeeds, every call returns.  Each returned value is the given value plus the offset
  then stored, and the stored offset never shrinks.
\<close>

theorem enforceMonotonicy_nondecreasing:
  assumes "nonNegative metricID w"
    and "list_all (\<lambda>(t, wr, v). 0 \<le> v) inputs"
  shows "sorted (returned (enforceAll metricID inputs w)) \<and>
         (knownState metricID w \<noteq> None \<and>
          list_all (\<lambda>(t, wr, v). \<forall>name. wr name = WriteOk) inputs \<longrightarrow>
            length (returned (enforceAll metricID inputs w)) = length inputs) \<and>
         (\<forall>v w0 y w1. enforceMonotonicy metricID v w0 = (Ok y, w1) \<longrightarrow>
            (\<exists>d d'. knownState metricID w0 = Some d \<and> knownState metricID w1 = Some d' \<and>
               y = v + Offset d' \<and> LastRawValue d' = v \<and>
               (0 \<le> LastRawValue d \<longrightarrow> Offset d \<le> Offset d')))"
proof (intro conjI allI impI)
  show "sorted (returned (enforceAll metricID inputs w))"
    using enforceAll_sorted_aux[OF assms] by simp
next
  assume "knownState metricID w \<noteq> None \<and>
    list_all (\<lambda>(t, wr, v). \<forall>name. wr name = WriteOk) inputs"
  then show "length (returned (enforceAll metricID inputs w)) = length inputs"
    using enforceAll_all_return by blast
next
  fix v w0 y w1
  assume "enforceMonotonicy metricID v w0 = (Ok y, w1)"
  from enforceMonotonicy_known[OF this]
  show "\<exists>d d'. knownState metricID w0 = Some d \<and> knownState metricID w1 = Some d' \<and>
               y = v + Offset d' \<and> LastRawValue d' = v \<and>
               (0 \<le> LastRawValue d \<longrightarrow> Offset d \<le> Offset d')"
    by (auto simp: newOffset_def)
qed

theorem enforceMonotonicy_nondecreasing_witness:
  "nonNegative ''energy'' startWorld \<and>
   list_all (\<lambda>(t, wr, v). 0 \<le> v) exampleInputs \<and>
   returned (enforceAll ''energy'' exampleInputs startWorld) = [10, 20, 35, 45] \<and>
   sorted (returned (enforceAll ''energy'' exampleInputs startWorld))"
proof -
  have h1: "nonNegative ''energy'' startWorld"
    by (simp add: nonNegative_def knownState_def startWorld_def zeroDynamic_def)
  have h2: "list_all (\<lambda>(t, wr, v). 0 \<le> v) exampleInputs"
    by (simp add: exampleInputs_def)
  from enforceMonotonicy_nondecreasing[OF h1 h2] h1 h2 show ?thesis
    by (simp add: enforceAll_example)
qed

section \<open>The pipeline\<close>

lemma parseMetric_plain_string:
  assumes "RawExpression cfg = []" "Expression cfg = []" "\<not> ForceMonotonicy cfg"
    and "DynamicLabels cfg = None" "MQTTValueScale cfg = 0"
  shows "parseMetric L cfg metricID raw w =
     (case coerceValue L cfg raw of
        Ok y \<Rightarrow>
          (Ok \<lparr>Description = PrometheusDescription cfg, Value = y,
               Metric_ValueType = PrometheusValueType cfg,
               IngestTime = (if \<not> OmitTimestamp cfg then now w else 0),
               Labels = Map.empty,
               LabelsKeys = DynamicLabelsKeys cfg\<rparr>, w)
      | Err e \<Rightarrow> (Err e, w)
      | Panic \<Rightarrow> (Panic, w))"
  using assms
  by (simp add: parseMetric_def resolveValue_def dynamicLabelsList_def Let_def
      split: result.splits)

text \<open>
  Claim C8.  A rule whose string mapping is STOPPED to 0 and RUNNING to 1, with no
  expression, monotonicy, scale or dynamic label and no error value in the mapping: the
  string RUNNING gives the metric value 1; the string UNKNOWN makes the pipeline fail when
  the rule has no error value, and gives -1 when the rule's error value is -1.
\<close>

theorem string_mapping_STOPPED_RUNNING:
  assumes "StringValueMapping cfg = Some svm"
    and "SVM_Map svm = [''STOPPED'' \<mapsto> 0, ''RUNNING'' \<mapsto> 1]"
    and "SVM_ErrorValue svm = None"
    and "RawExpression cfg = []" and "Expression cfg = []" and "\<not> ForceMonotonicy cfg"
    and "DynamicLabels cfg = None" and "MQTTValueScale cfg = 0"
  shows "map_result Value (fst (parseMetric L cfg metricID (VStr ''RUNNING'') w)) = Ok 1 \<and>
         (ErrorValue cfg = None \<longrightarrow>
            fst (parseMetric L cfg metricID (VStr ''UNKNOWN'') w)
              = Err (UnexpectedString ''UNKNOWN'')) \<and>
         (ErrorValue cfg = Some (- 1) \<longrightarrow>
            map_result Value (fst (parseMetric L cfg metricID (VStr ''UNKNOWN'') w)) = Ok (- 1))"
  using assms by (simp add: parseMetric_plain_string coerceValue_def)

theorem string_mapping_STOPPED_RUNNING_witness:
  "map_result Value (fst (parseMetric exampleLib statusRule ''status'' (VStr ''RUNNING'') startWorld))
     = Ok 1 \<and>
   fst (parseMetric exampleLib statusRule ''status'' (VStr ''UNKNOWN'') startWorld)
     = Err (UnexpectedString ''UNKNOWN'') \<and>
   map_result Value
     (fst (parseMetric exampleLib (statusRule\<lparr>ErrorValue := Some (- 1)\<rparr>) ''status''
        (VStr ''UNKNOWN'') startWorld)) = Ok (- 1)"
proof -
  let ?svm = "\<lparr>SVM_ErrorValue = None, SVM_Map = [''STOPPED'' \<mapsto> 0, ''RUNNING'' \<mapsto> 1]\<rparr>"
  have a: "StringValueMapping statusRule = Some ?svm" "SVM_Map ?svm = [''STOPPED'' \<mapsto> 0, ''RUNNING'' \<mapsto> 1]"
    "SVM_ErrorValue ?svm = None" "RawExpression statusRule = []" "Expression statusRule = []"
    "\<not> ForceMonotonicy statusRule" "DynamicLabels statusRule = None"
    "MQTTValueScale statusRule = 0"
    by (simp_all add: statusRule_def zeroMetricConfig_def)
  have b: "StringValueMapping (statusRule\<lparr>ErrorValue := Some (- 1)\<rparr>) = Some ?svm"
    "RawExpression (statusRule\<lparr>ErrorValue := Some (- 1)\<rparr>) = []"
    "Expression (statusRule\<lparr>ErrorValue := Some (- 1)\<rparr>) = []"
    "\<not> ForceMonotonicy (statusRule\<lparr>ErrorValue := Some (- 1)\<rparr>)"
    "DynamicLabels (statusRule\<lparr>ErrorValue := Some (- 1)\<rparr>) = None"
    "MQTTValueScale (statusRule\<lparr>ErrorValue := Some (- 1)\<rparr>) = 0"
    by (simp_all add: statusRule_def zeroMetricConfig_def)
  have n: "ErrorValue statusRule = None" by (simp add: statusRule_def zeroMetricConfig_def)
  from string_mapping_STOPPED_RUNNING[OF a, of exampleLib "''status''" startWorld]
    string_mapping_STOPPED_RUNNING[OF b(1) a(2) a(3) b(2-6), of exampleLib "''status''" startWorld]
    n
  show ?thesis by simp
qed

lemma DynamicLabelsKeys_sorted: "sorted (DynamicLabelsKeys cfg)"
  by (simp add: DynamicLabelsKeys_def)

lemma DynamicLabelsKeys_mset:
  "mset (DynamicLabelsKeys cfg) = mset (map fst (dynamicLabelsList cfg))"
  by (simp add: DynamicLabelsKeys_def)

lemma DynamicLabelsKeys_order_independent:
  assumes "mset (dynamicLabelsList cfg') = mset (dynamicLabelsList cfg)"
  shows "DynamicLabelsKeys cfg' = DynamicLabelsKeys cfg"
proof -
  from assms have "mset (map fst (dynamicLabelsList cfg')) = mset (map fst (dynamicLabelsList cfg))"
    by (metis mset_map)
  then show ?thesis
    unfolding DynamicLabelsKeys_def
    by (intro properties_for_sort) simp_all
qed

lemma parseMetric_Ok_shape:
  assumes "fst (parseMetric L cfg metricID raw w) = Ok m"
  shows "\<exists>mv ts labels.
           m = \<lparr>Description = PrometheusDescription cfg, Value = mv,
                Metric_ValueType = PrometheusValueType cfg, IngestTime = ts, Labels = labels,
                LabelsKeys = DynamicLabelsKeys cfg\<rparr>"
proof -
  obtain r1 w1 where r1: "resolveValue L cfg metricID raw w = (r1, w1)" by force
  show ?thesis
  proof (cases r1)
    case (Ok mv1)
    obtain r2 w2 where r2:
      "(if ForceMonotonicy cfg then orErrorValue cfg (enforceMonotonicy metricID mv1 w1)
        else (Ok mv1, w1)) = (r2, w2)" by force
    show ?thesis
    proof (cases r2)
      case (Ok mv2)
      note Ok2 = this
      obtain r3 w3 where r3:
        "(if length (dynamicLabelsList cfg) > 0
          then evalLabels L metricID (dynamicLabelsList cfg) raw
                 (if MQTTValueScale cfg \<noteq> 0 then mv2 * MQTTValueScale cfg else mv2)
                 Map.empty w2
          else (Ok Map.empty, w2)) = (r3, w3)" by force
      show ?thesis
        using assms r1 \<open>r1 = Ok mv1\<close> r2 Ok2 r3
        by (cases r3) (auto simp add: parseMetric_def Let_def)
    next
      case (Err e)
      with assms r1 \<open>r1 = Ok mv1\<close> r2 show ?thesis by (simp add: parseMetric_def)
    next
      case Panic
      with assms r1 \<open>r1 = Ok mv1\<close> r2 show ?thesis by (simp add: parseMetric_def)
    qed
  next
    case (Err e)
    with assms r1 show ?thesis by (simp add: parseMetric_def)
  next
    case Panic
    with assms r1 show ?thesis by (simp add: parseMetric_def)
  qed
qed

lemma parseMetric_LabelsKeys:
  assumes "fst (parseMetric L cfg metricID raw w) = Ok m"
  shows "LabelsKeys m = DynamicLabelsKeys cfg \<and>
         variableLabels (Description m) = [''sensor'', ''topic''] @ DynamicLabelsKeys cfg"
  using parseMetric_Ok_shape[OF assms] by (auto simp: PrometheusDescription_def)

text \<open>
  Claim C10.  The label names attached to a metric that \<^verbatim>\<open>parseMetric\<close> produces are the
  names of the configured dynamic labels sorted in increasing lexicographic order: a sorted
  rearrangement of them that does not depend on the order in which the label map is
  walked.  The description lists the same names after sensor and topic.
\<close>

theorem LabelsKeys_sorted:
  assumes "fst (parseMetric L cfg metricID raw w) = Ok m"
  shows "LabelsKeys m = sort (map fst (dynamicLabelsList cfg)) \<and>
         sorted (LabelsKeys m) \<and>
         mset (LabelsKeys m) = mset (map fst (dynamicLabelsList cfg)) \<and>
         (\<forall>cfg'. mset (dynamicLabelsList cfg') = mset (dynamicLabelsList cfg) \<longrightarrow>
            DynamicLabelsKeys cfg' = LabelsKeys m) \<and>
         variableLabels (Description m) = [''sensor'', ''topic''] @ LabelsKeys m"
proof -
  from parseMetric_LabelsKeys[OF assms]
  have k: "LabelsKeys m = DynamicLabelsKeys cfg"
    and v: "variableLabels (Description m) = [''sensor'', ''topic''] @ DynamicLabelsKeys cfg"
    by blast+
  have "LabelsKeys m = sort (map fst (dynamicLabelsList cfg))"
    using k by (simp add: DynamicLabelsKeys_def)
  moreover have "sorted (LabelsKeys m)"
    using k DynamicLabelsKeys_sorted by simp
  moreover have "mset (LabelsKeys m) = mset (map fst (dynamicLabelsList cfg))"
    using k DynamicLabelsKeys_mset by simp
  moreover have "\<forall>cfg'. mset (dynamicLabelsList cfg') = mset (dynamicLabelsList cfg) \<longrightarrow>
            DynamicLabelsKeys cfg' = LabelsKeys m"
    using k DynamicLabelsKeys_order_independent[of _ cfg] by metis
  moreover have "variableLabels (Description m) = [''sensor'', ''topic''] @ LabelsKeys m"
    using k v by simp
  ultimately show ?thesis by blast
qed

lemma labelledRule_run:
  "map_result LabelsKeys (fst (parseMetric exampleLib labelledRule ''temperature'' (VBool True) startWorld))
     = Ok [''axis'', ''zone'']"
  by code_simp


theorem LabelsKeys_sorted_witness:
  "map_result LabelsKeys
     (fst (parseMetric exampleLib labelledRule ''temperature'' (VBool True) startWorld))
     = Ok [''axis'', ''zone''] \<and>
   sorted [''axis'', ''zone'']"
proof -
  let ?r = "fst (parseMetric exampleLib labelledRule ''temperature'' (VBool True) startWorld)"
  have run: "map_result LabelsKeys ?r = Ok [''axis'', ''zone'']"
    by (rule labelledRule_run)
  then obtain m where m: "?r = Ok m" and keys: "LabelsKeys m = [''axis'', ''zone'']"
    by (cases ?r) auto
  from LabelsKeys_sorted[OF m] have "sorted (LabelsKeys m)" by blast
  with keys run show ?thesis by simp
qed

section \<open>Merging the fragments\<close>

lemma Type_getField: "Type (getField f a) = Type (getField f b)"
  by (cases f) simp_all

lemma getField_setField_same: "getField f (setField f (getField f S) t) = getField f S"
  by (cases f) simp_all

lemma getField_setField_other:
  "f \<noteq> g \<Longrightarrow> getField f (setField g (getField g S) t) = getField f t"
  by (cases g; cases f; simp)

lemma getField_inheritField:
  "getField f (inheritField S t g) =
     (if f = g \<and> IsZero (getField g t) \<and> \<not> IsZero (getField g S) then getField g S
      else getField f t)"
  using Type_getField[of g t S]
  by (auto simp: inheritField_def getField_setField_same getField_setField_other)

lemma getField_foldl_inheritField:
  "distinct gs \<Longrightarrow>
   getField f (foldl (inheritField S) t gs) =
     (if f \<in> set gs \<and> IsZero (getField f t) \<and> \<not> IsZero (getField f S) then getField f S
      else getField f t)"
proof (induction gs arbitrary: t)
  case Nil
  then show ?case by simp
next
  case (Cons g gs)
  then show ?case by (auto simp: getField_inheritField)
qed

lemma distinct_fields: "distinct fields"
  by (simp add: fields_def)

lemma field_in_fields: "f \<in> set fields"
  by (cases f) (simp_all add: fields_def)

lemma getField_inheritFields:
  "getField f (inheritFields S c) =
     (if IsZero (getField f c) \<and> \<not> IsZero (getField f S) then getField f S else getField f c)"
  by (simp add: inheritFields_def getField_foldl_inheritField distinct_fields field_in_fields)

lemma zero_unique:
  "IsZero (getField f a) \<Longrightarrow> IsZero (getField f b) \<Longrightarrow> getField f a = getField f b"
  by (cases f) (auto intro: Regexp.equality)

lemma getField_resolved:
  "getField f (inheritFields D (inheritFields S c)) =
     spec_resolved (getField f c) (getField f S) (getField f D)"
  by (auto simp: getField_inheritFields spec_resolved_def intro: zero_unique)

lemma Metrics_mergeBlock:
  "Metrics (mergeBlock b) =
     map (\<lambda>c. inheritFields MetricConfigDefaults (inheritFields (SharedValues b) c)) (Metrics b)"
  by (simp add: mergeBlock_def)

lemma mergeMetrics_nth:
  assumes "i < length blocks" and "j < length (Metrics (blocks ! i))"
  shows "Metrics (mergeMetrics blocks ! i) ! j =
           inheritFields MetricConfigDefaults
             (inheritFields (SharedValues (blocks ! i)) (Metrics (blocks ! i) ! j))"
  using assms by (simp add: mergeMetrics_def Metrics_mergeBlock)


text \<open>
  Claim C6.  For the rule at any position of any block, with \<open>c\<close> the concrete fragment as
  written, \<open>S\<close> the block's shared fragment and the global defaults as the third tier, and
  for every field: the merged value is the concrete one when that is not zero, else the
  shared one when that is not zero, else the default one.  A zero field of a parent never
  changes the target, and a field changes only by taking a non-zero parent value of the
  same type into a zero field.  The same three-tier rule holds for any default fragment
  \<open>D\<close> in place of the global one.
\<close>

theorem merge_field_precedence:
  assumes "i < length blocks" and "j < length (Metrics (blocks ! i))"
    and "c = Metrics (blocks ! i) ! j" and "S = SharedValues (blocks ! i)"
    and "r = Metrics (mergeMetrics blocks ! i) ! j"
  shows "getField f r =
           spec_resolved (getField f c) (getField f S) (getField f MetricConfigDefaults) \<and>
         (\<not> IsZero (getField f c) \<longrightarrow> getField f r = getField f c) \<and>
         (IsZero (getField f c) \<and> \<not> IsZero (getField f S) \<longrightarrow> getField f r = getField f S) \<and>
         (IsZero (getField f c) \<and> IsZero (getField f S) \<longrightarrow>
            getField f r = getField f MetricConfigDefaults) \<and>
         (IsZero (getField f S) \<longrightarrow> getField f (inheritFields S c) = getField f c) \<and>
         (getField f (inheritFields S c) \<noteq> getField f c \<longrightarrow>
            Type (getField f S) = Type (getField f c) \<and> \<not> IsZero (getField f S) \<and>
            IsZero (getField f c) \<and> getField f (inheritFields S c) = getField f S) \<and>
         getField f (inheritFields D (inheritFields S c)) =
           spec_resolved (getField f c) (getField f S) (getField f D)"
proof -
  have r: "r = inheritFields MetricConfigDefaults (inheritFields S c)"
    unfolding assms(3-5) using assms(1,2) by (rule mergeMetrics_nth)
  have 1: "getField f r =
      spec_resolved (getField f c) (getField f S) (getField f MetricConfigDefaults)"
    unfolding r by (rule getField_resolved)
  have 2: "\<not> IsZero (getField f c) \<longrightarrow> getField f r = getField f c"
    unfolding 1 by (simp add: spec_resolved_def)
  have 3: "IsZero (getField f c) \<and> \<not> IsZero (getField f S) \<longrightarrow> getField f r = getField f S"
    unfolding 1 by (simp add: spec_resolved_def)
  have 4: "IsZero (getField f c) \<and> IsZero (getField f S) \<longrightarrow>
      getField f r = getField f MetricConfigDefaults"
    unfolding 1 by (simp add: spec_resolved_def)
  have 5: "IsZero (getField f S) \<longrightarrow> getField f (inheritFields S c) = getField f c"
    by (simp add: getField_inheritFields)
  have 6: "getField f (inheritFields S c) \<noteq> getField f c \<longrightarrow>
            Type (getField f S) = Type (getField f c) \<and> \<not> IsZero (getField f S) \<and>
            IsZero (getField f c) \<and> getField f (inheritFields S c) = getField f S"
    using Type_getField[of f S c] by (simp add: getField_inheritFields)
  have 7: "getField f (inheritFields D (inheritFields S c)) =
           spec_resolved (getField f c) (getField f S) (getField f D)"
    by (rule getField_resolved)
  from 1 2 3 4 5 6 7 show ?thesis by blast
qed


theorem merge_field_precedence_witness:
  "Help (Metrics (mergeMetrics [exampleBlock] ! 0) ! 0) = ''own help'' \<and>
   ValueType (Metrics (mergeMetrics [exampleBlock] ! 0) ! 0) = ''gauge'' \<and>
   TopicPathFilter (Metrics (mergeMetrics [exampleBlock] ! 0) ! 0)
     = TopicPathFilter MetricConfigDefaults \<and>
   MQTTValueScale (Metrics (mergeMetrics [exampleBlock] ! 0) ! 0) = 0"
proof -
  let ?c = "Metrics ([exampleBlock] ! 0) ! 0"
  let ?S = "SharedValues ([exampleBlock] ! 0)"
  let ?r = "Metrics (mergeMetrics [exampleBlock] ! 0) ! 0"
  have i: "0 < length [exampleBlock]" by simp
  have j: "0 < length (Metrics ([exampleBlock] ! 0))" by (simp add: exampleBlock_def)
  note m = merge_field_precedence[OF i j refl refl refl]
  have "getField F_Help ?r = getField F_Help ?c"
    using m[of F_Help] by (simp add: exampleBlock_def zeroMetricConfig_def)
  moreover have "getField F_ValueType ?r = getField F_ValueType ?S"
    using m[of F_ValueType] by (simp add: exampleBlock_def zeroMetricConfig_def)
  moreover have "getField F_TopicPathFilter ?r = getField F_TopicPathFilter MetricConfigDefaults"
    using m[of F_TopicPathFilter] by (simp add: exampleBlock_def zeroMetricConfig_def)
  moreover have "getField F_MQTTValueScale ?r = getField F_MQTTValueScale MetricConfigDefaults"
    using m[of F_MQTTValueScale] by (simp add: exampleBlock_def zeroMetricConfig_def)
  ultimately show ?thesis
    by (simp add: exampleBlock_def zeroMetricConfig_def MetricConfigDefaults_def)
qed

section \<open>Validation of the resolved rules\<close>





lemma Config_Metrics_withDefaults [simp]:
  "Config_Metrics (withDefaults cfg) = Config_Metrics cfg"
  by (simp add: withDefaults_def Let_def)








section \<open>Failures of the state store\<close>




lemma evalExpressionLabel_Err:
  "getMetricState (label @ ''@'' @ metricID) w = (Err e, w1) \<Longrightarrow>
   evalExpressionLabel L metricID label code raw v w = (Err e, w1)"
  by (simp add: evalExpressionLabel_def)





section \<open>Failures of value expressions\<close>

lemma evalExpressionValue_compile_fails:
  assumes "getMetricState metricID w = (Ok ms, w1)" and "program ms = None"
    and "\<forall>e. Compile L code e True = None"
  shows "fst (evalExpressionValue L metricID code raw v w) = Err (CompileFailed code)"
  using assms by (simp add: evalExpressionValue_def Let_def)

lemma evalExpressionValue_run_fails:
  assumes "getMetricState metricID w = (Ok ms, w1)" and "program ms = None"
    and "\<forall>e. \<exists>p. Compile L code e True = Some p \<and> (\<forall>e'. p e' = None)"
  shows "fst (evalExpressionValue L metricID code raw v w) = Err (EvalFailed code)"
proof -
  let ?e = "defaultExprEnv
             (env_raw_value \<mapsto> raw,
              env_value \<mapsto> VFloat v,
              env_last_value \<mapsto> VFloat (LastExprValue (dynamic ms)),
              env_last_raw_value \<mapsto> LastExprRawValue (dynamic ms),
              env_last_result \<mapsto> VFloat (LastExprResult (dynamic ms)),
              env_elapsed \<mapsto>
                VDur (if LastExprTimestamp (dynamic ms) = 0 then 0
                      else Sub (now w1) (LastExprTimestamp (dynamic ms))))"
  from assms(3) obtain p where p: "Compile L code ?e True = Some p" "\<forall>e'. p e' = None"
    by blast
  show ?thesis using assms(1,2) p by (simp add: evalExpressionValue_def Let_def)
qed

lemma evalExpressionValue_cached:
  assumes "getMetricState metricID w = (Ok ms, w1)" and "program ms = Some p"
  shows "fst (evalExpressionValue L metricID code raw v w) =
           (case p (env ms) of
              None \<Rightarrow> Err (EvalFailed code)
            | Some (VFloat ret) \<Rightarrow> Ok ret
            | Some _ \<Rightarrow> Panic)"
  using assms by (simp add: evalExpressionValue_def Let_def split: option.splits val.splits)

lemma parseMetric_no_monotonic_no_labels:
  assumes "\<not> ForceMonotonicy cfg" and "DynamicLabels cfg = None"
  shows "map_result Value (fst (parseMetric L cfg metricID raw w)) =
           map_result (scaled cfg) (fst (resolveValue L cfg metricID raw w))"
proof -
  obtain r1 w1 where r1: "resolveValue L cfg metricID raw w = (r1, w1)" by force
  show ?thesis using assms r1
    by (cases r1) (simp_all add: parseMetric_def dynamicLabelsList_def scaled_def Let_def)
qed

lemma fst_orErrorValue:
  "fst (orErrorValue cfg rw) =
     (case fst rw of
        Err e \<Rightarrow> (case ErrorValue cfg of Some ev \<Rightarrow> Ok ev | None \<Rightarrow> Err e)
      | Ok x \<Rightarrow> Ok x
      | Panic \<Rightarrow> Panic)"
  by (cases rw; cases "fst rw") (auto simp: orErrorValue_def split: option.splits)

lemma resolveValue_expression_error:
  assumes "code = RawExpression cfg \<and> v = 0 \<or>
           RawExpression cfg = [] \<and> code = Expression cfg \<and> coerceValue L cfg raw = Ok v"
    and "code \<noteq> []"
    and "fst (evalExpressionValue L metricID code raw v w) = Err e"
  shows "fst (resolveValue L cfg metricID raw w) =
           (case ErrorValue cfg of None \<Rightarrow> Err e | Some ev \<Rightarrow> Ok ev)"
  using assms by (auto simp: resolveValue_def fst_orErrorValue split: option.splits)

lemma startWorld_getMetricState:
  "\<exists>ms w1. getMetricState metricID startWorld = (Ok ms, w1) \<and> program ms = None"
proof -
  have "states startWorld metricID = None"
    "files startWorld (stateFileName startWorld metricID) = NotExist"
    "writeResult startWorld (stateFileName startWorld metricID) = WriteOk"
    by (simp_all add: startWorld_def)
  from getMetricState_fresh_ok[OF this] show ?thesis by blast
qed

lemma exampleLib_no_compile: "\<forall>e. Compile exampleLib ''value +'' e True = None"
  by (simp add: exampleLib_def)

text \<open>
  Claim C3, as stated, fails.  The expression of the rule does not compile, so
  \<^verbatim>\<open>evalExpressionValue\<close> returns the compile error; the rule has the error value -1, and
  \<^verbatim>\<open>parseMetric\<close> returns a metric with the value -1 instead of the error.
\<close>

theorem compile_failure_masked_counterexample:
  "fst (evalExpressionValue exampleLib ''power'' ''value +'' (VFloat 5) 5 startWorld)
     = Err (CompileFailed ''value +'') \<and>
   map_result Value (fst (parseMetric exampleLib brokenRule ''power'' (VFloat 5) startWorld))
     = Ok (- 1)"
proof -
  obtain ms w1 where g: "getMetricState ''power'' startWorld = (Ok ms, w1)" "program ms = None"
    using startWorld_getMetricState by blast
  have e: "fst (evalExpressionValue exampleLib ''power'' ''value +'' (VFloat 5) 5 startWorld)
     = Err (CompileFailed ''value +'')"
    by (rule evalExpressionValue_compile_fails[OF g exampleLib_no_compile])
  have r: "fst (resolveValue exampleLib brokenRule ''power'' (VFloat 5) startWorld) = Ok (- 1)"
    using e
    by (simp add: resolveValue_def coerceValue_def fst_orErrorValue brokenRule_def
        zeroMetricConfig_def)
  have "map_result Value (fst (parseMetric exampleLib brokenRule ''power'' (VFloat 5) startWorld))
     = Ok (- 1)"
    using r
    by (simp add: parseMetric_no_monotonic_no_labels scaled_def brokenRule_def
        zeroMetricConfig_def)
  with e show ?thesis by blast
qed

text \<open>
  Claim C3, amended.  On the first evaluation of a rule's value expression (the raw
  expression, or the expression after the type switch), with no monotonicy and no dynamic
  labels: when the expression does not compile, \<^verbatim>\<open>evalExpressionValue\<close> returns the compile
  error, and \<^verbatim>\<open>parseMetric\<close> returns it when the rule has no error value and returns the
  metric with the scaled error value when it has one.  A program that compiles and fails
  when it runs is treated in the same way.
\<close>

theorem expression_failures_and_errorValue:
  assumes "getMetricState metricID w = (Ok ms, w1)" and "program ms = None"
    and "code = RawExpression cfg \<and> v = 0 \<or>
         RawExpression cfg = [] \<and> code = Expression cfg \<and> coerceValue L cfg raw = Ok v"
    and "code \<noteq> []"
    and "\<not> ForceMonotonicy cfg" and "DynamicLabels cfg = None"
  shows "((\<forall>e. Compile L code e True = None) \<longrightarrow>
            fst (evalExpressionValue L metricID code raw v w) = Err (CompileFailed code) \<and>
            map_result Value (fst (parseMetric L cfg metricID raw w)) =
              (case ErrorValue cfg of
                 None \<Rightarrow> Err (CompileFailed code)
               | Some ev \<Rightarrow> Ok (scaled cfg ev))) \<and>
         ((\<forall>e. \<exists>p. Compile L code e True = Some p \<and> (\<forall>e'. p e' = None)) \<longrightarrow>
            fst (evalExpressionValue L metricID code raw v w) = Err (EvalFailed code) \<and>
            map_result Value (fst (parseMetric L cfg metricID raw w)) =
              (case ErrorValue cfg of
                 None \<Rightarrow> Err (EvalFailed code)
               | Some ev \<Rightarrow> Ok (scaled cfg ev)))"
proof (intro conjI impI)
  assume c: "\<forall>e. Compile L code e True = None"
  from evalExpressionValue_compile_fails[OF assms(1,2) c]
  show e: "fst (evalExpressionValue L metricID code raw v w) = Err (CompileFailed code)" .
  show "map_result Value (fst (parseMetric L cfg metricID raw w)) =
              (case ErrorValue cfg of
                 None \<Rightarrow> Err (CompileFailed code)
               | Some ev \<Rightarrow> Ok (scaled cfg ev))"
    by (simp add: parseMetric_no_monotonic_no_labels[OF assms(5,6)]
        resolveValue_expression_error[OF assms(3,4) e] split: option.splits)
next
  assume c: "\<forall>e. \<exists>p. Compile L code e True = Some p \<and> (\<forall>e'. p e' = None)"
  from evalExpressionValue_run_fails[OF assms(1,2) c]
  show e: "fst (evalExpressionValue L metricID code raw v w) = Err (EvalFailed code)" .
  show "map_result Value (fst (parseMetric L cfg metricID raw w)) =
              (case ErrorValue cfg of
                 None \<Rightarrow> Err (EvalFailed code)
               | Some ev \<Rightarrow> Ok (scaled cfg ev))"
    by (simp add: parseMetric_no_monotonic_no_labels[OF assms(5,6)]
        resolveValue_expression_error[OF assms(3,4) e] split: option.splits)
qed

theorem expression_failures_and_errorValue_witness:
  "fst (evalExpressionValue exampleLib ''power'' ''value +'' (VFloat 5) 5 startWorld)
     = Err (CompileFailed ''value +'') \<and>
   map_result Value (fst (parseMetric exampleLib brokenRule ''power'' (VFloat 5) startWorld))
     = Ok (- 1) \<and>
   map_result Value
     (fst (parseMetric exampleLib (brokenRule\<lparr>ErrorValue := None\<rparr>) ''power'' (VFloat 5)
        startWorld)) = Err (CompileFailed ''value +'')"
proof -
  let ?cfg' = "brokenRule\<lparr>ErrorValue := None\<rparr>"
  obtain ms w1 where g: "getMetricState ''power'' startWorld = (Ok ms, w1)" "program ms = None"
    using startWorld_getMetricState by blast
  have a: "''value +'' = RawExpression brokenRule \<and> (5::real) = 0 \<or>
         RawExpression brokenRule = [] \<and> ''value +'' = Expression brokenRule \<and>
         coerceValue exampleLib brokenRule (VFloat 5) = Ok 5"
    by (simp add: brokenRule_def zeroMetricConfig_def coerceValue_def)
  have a': "''value +'' = RawExpression ?cfg' \<and> (5::real) = 0 \<or>
         RawExpression ?cfg' = [] \<and> ''value +'' = Expression ?cfg' \<and>
         coerceValue exampleLib ?cfg' (VFloat 5) = Ok 5"
    by (simp add: brokenRule_def zeroMetricConfig_def coerceValue_def)
  have n: "''value +'' \<noteq> []" by simp
  have c: "\<not> ForceMonotonicy brokenRule" "DynamicLabels brokenRule = None"
    by (simp_all add: brokenRule_def zeroMetricConfig_def)
  have c': "\<not> ForceMonotonicy ?cfg'" "DynamicLabels ?cfg' = None"
    by (simp_all add: brokenRule_def zeroMetricConfig_def)
  have ev: "ErrorValue brokenRule = Some (- 1)" "ErrorValue ?cfg' = None"
    "scaled brokenRule (- 1) = - 1"
    by (simp_all add: brokenRule_def zeroMetricConfig_def scaled_def)
  from expression_failures_and_errorValue[OF g a n c] exampleLib_no_compile ev
  have 1: "fst (evalExpressionValue exampleLib ''power'' ''value +'' (VFloat 5) 5 startWorld)
     = Err (CompileFailed ''value +'')"
    and 2: "map_result Value (fst (parseMetric exampleLib brokenRule ''power'' (VFloat 5) startWorld))
     = Ok (- 1)" by simp_all
  from expression_failures_and_errorValue[OF g a' n c'] exampleLib_no_compile ev
  have 3: "map_result Value (fst (parseMetric exampleLib ?cfg' ''power'' (VFloat 5) startWorld))
     = Err (CompileFailed ''value +'')" by simp
  from 1 2 3 show ?thesis by blast
qed

section \<open>The error value and the steps of the pipeline\<close>

text \<open>The definitions that evaluating the pipeline on an example unfolds.\<close>

lemmas eval_defs =
  parseMetric_def resolveValue_def coerceValue_def orErrorValue_def evalExpressionValue_def
  evalExpressionLabel_def getMetricState_def readMetricState_def writeMetricState_def
  putState_def stateFileName_def zeroState_def zeroDynamic_def defaultExprEnv_def
  env_raw_value_def env_value_def env_last_value_def env_last_raw_value_def
  env_last_result_def env_elapsed_def dynamicLabelsList_def Let_def Sub_def Minute_def
  maxDuration_def minDuration_def exampleLib_def startWorld_def exampleTime_def
  zeroMetricConfig_def












section \<open>The environment of value expressions\<close>

lemma evalExpressionValue_cached_ignores_inputs:
  assumes "getMetricState metricID w = (Ok ms, w1)" and "program ms = Some p"
  shows "fst (evalExpressionValue L metricID code raw v w) =
         fst (evalExpressionValue L metricID code raw' v' w)"
  using assms by (simp add: evalExpressionValue_cached)

text \<open>
  Claim C2 does not hold of the code.  A rule with the expression \<^verbatim>\<open>value\<close> is fed 1 and then
  2: both results are 1, because the second evaluation runs the stored program on the
  environment that the first evaluation filled.  The same happens to \<^verbatim>\<open>raw_value\<close> in a raw
  expression.  The sibling \<^verbatim>\<open>evalExpressionLabel\<close> fills the environment before every run:
  a label showing \<^verbatim>\<open>raw_value\<close> follows the input.
\<close>

theorem value_expression_environment_stale:
  "map (map_result Value)
     (feed exampleLib valueRule ''power'' [(exampleTime, VFloat 1), (exampleTime, VFloat 2)]
        startWorld) = [Ok 1, Ok 1] \<and>
   map (map_result Value)
     (feed exampleLib rawValueRule ''power'' [(exampleTime, VFloat 1), (exampleTime, VFloat 2)]
        startWorld) = [Ok 1, Ok 1] \<and>
   map (map_result (\<lambda>m. Labels m ''zone''))
     (feed exampleLib zoneRule ''door'' [(exampleTime, VBool True), (exampleTime, VBool False)]
        startWorld) = [Ok (Some ''true''), Ok (Some ''false'')]"
  by (simp add: eval_defs valueRule_def rawValueRule_def zoneRule_def)

end
